theory Spec2Isabelle
  imports Complex_Main
begin

section \<open>JSON values\<close>

text \<open>
  The values \<open>response.json()\<close> and \<open>JSON.parse\<close> produce. An object is the list of its
  own properties; \<open>map_of\<close> reads a property, and a key that is absent reads as
  \<open>undefined\<close> (\<open>None\<close>). Numbers are the finite JSON numbers.
\<close>

datatype json =
    JNull
  | JBool bool
  | JNum real
  | JStr string
  | JArr "json list"
  | JObj "(string \<times> json) list"

text \<open>JavaScript truthiness, as \<open>a || b\<close> tests it.\<close>

fun truthy :: "json \<Rightarrow> bool" where
  "truthy JNull = False"
| "truthy (JBool b) = b"
| "truthy (JNum x) = (x \<noteq> 0)"
| "truthy (JStr s) = (s \<noteq> [])"
| "truthy (JArr xs) = True"
| "truthy (JObj kvs) = True"

section \<open>The Zod schemas of \<open>lib/api-client.ts\<close>\<close>

text \<open>
  A schema is its \<open>parse\<close>: \<open>Some\<close> of the validated value, or \<open>None\<close> where Zod throws a
  \<open>ZodError\<close>. \<open>z.object\<close> takes a non-null, non-array object, parses every key of its shape
  (a key that is missing is an issue for every schema used below) and strips the keys
  the shape does not name.
\<close>

type_synonym schema = "json \<Rightarrow> json option"

definition z_string :: schema where
  "z_string j = (case j of JStr s \<Rightarrow> Some j | _ \<Rightarrow> None)"

definition z_number :: schema where
  "z_number j = (case j of JNum x \<Rightarrow> Some j | _ \<Rightarrow> None)"

definition z_boolean :: schema where
  "z_boolean j = (case j of JBool b \<Rightarrow> Some j | _ \<Rightarrow> None)"

definition z_any :: schema where
  "z_any j = Some j"

definition z_nullable :: "schema \<Rightarrow> schema" where
  "z_nullable p j = (case j of JNull \<Rightarrow> Some JNull | _ \<Rightarrow> p j)"

definition z_array :: "schema \<Rightarrow> schema" where
  "z_array p j = (case j of JArr xs \<Rightarrow> map_option JArr (those (map p xs)) | _ \<Rightarrow> None)"

definition z_entry :: "schema \<Rightarrow> schema \<Rightarrow> string \<times> json \<Rightarrow> (string \<times> json) option" where
  "z_entry kp vp kv =
     (case kp (JStr (fst kv)) of
        None \<Rightarrow> None
      | Some _ \<Rightarrow> map_option (Pair (fst kv)) (vp (snd kv)))"

definition z_record :: "schema \<Rightarrow> schema \<Rightarrow> schema" where
  "z_record kp vp j =
     (case j of JObj kvs \<Rightarrow> map_option JObj (those (map (z_entry kp vp) kvs)) | _ \<Rightarrow> None)"

definition z_field :: "(string \<times> json) list \<Rightarrow> string \<times> schema \<Rightarrow> (string \<times> json) option" where
  "z_field kvs ks =
     (case map_of kvs (fst ks) of
        None \<Rightarrow> None
      | Some v \<Rightarrow> map_option (Pair (fst ks)) (snd ks v))"

definition z_object :: "(string \<times> schema) list \<Rightarrow> schema" where
  "z_object shape j =
     (case j of JObj kvs \<Rightarrow> map_option JObj (those (map (z_field kvs) shape)) | _ \<Rightarrow> None)"

definition DocumentSchema :: schema where
  "DocumentSchema = z_object
     [(''id'', z_string),
      (''text'', z_string),
      (''embedding'', z_array z_number),
      (''cluster_id'', z_nullable z_string),
      (''metadata'', z_record z_string z_any),
      (''created_at'', z_string),
      (''updated_at'', z_string)]"

definition ClusterSchema :: schema where
  "ClusterSchema = z_object
     [(''id'', z_string),
      (''name'', z_string),
      (''centroid'', z_array z_number),
      (''document_ids'', z_array z_string),
      (''representative_doc_id'', z_string)]"

definition ClusterDataSchema :: schema where
  "ClusterDataSchema = z_object
     [(''folders'', z_array ClusterSchema),
      (''documents'', z_array DocumentSchema),
      (''timestamp'', z_string)]"

definition IngestResponseSchema :: schema where
  "IngestResponseSchema = z_object
     [(''success'', z_boolean),
      (''document_ids'', z_array z_string),
      (''count'', z_number),
      (''message'', z_string)]"

definition ClusterResponseSchema :: schema where
  "ClusterResponseSchema = z_object
     [(''folders'', z_array ClusterSchema),
      (''documents'', z_array DocumentSchema),
      (''timestamp'', z_string)]"

definition ReEmbedResponseSchema :: schema where
  "ReEmbedResponseSchema = z_object
     [(''success'', z_boolean),
      (''new_cluster_id'', z_string),
      (''updated_clusters'', ClusterResponseSchema)]"

definition DocumentResponseSchema :: schema where
  "DocumentResponseSchema = z_object
     [(''documents'', z_array DocumentSchema),
      (''count'', z_number)]"

section \<open>Shapes, as the interface describes them\<close>

fun is_string :: "json \<Rightarrow> bool" where
  "is_string (JStr s) = True"
| "is_string _ = False"

fun is_number :: "json \<Rightarrow> bool" where
  "is_number (JNum x) = True"
| "is_number _ = False"

fun is_boolean :: "json \<Rightarrow> bool" where
  "is_boolean (JBool b) = True"
| "is_boolean _ = False"

fun is_record :: "json \<Rightarrow> bool" where
  "is_record (JObj kvs) = True"
| "is_record _ = False"

fun string_or_null :: "json \<Rightarrow> bool" where
  "string_or_null JNull = True"
| "string_or_null (JStr s) = True"
| "string_or_null _ = False"

fun array_of :: "(json \<Rightarrow> bool) \<Rightarrow> json \<Rightarrow> bool" where
  "array_of P (JArr xs) = list_all P xs"
| "array_of P _ = False"

fun has :: "string \<Rightarrow> (json \<Rightarrow> bool) \<Rightarrow> json \<Rightarrow> bool" where
  "has k P (JObj kvs) = (case map_of kvs k of None \<Rightarrow> False | Some v \<Rightarrow> P v)"
| "has k P _ = False"

definition cluster_shape :: "json \<Rightarrow> bool" where
  "cluster_shape j \<longleftrightarrow>
     has ''id'' is_string j \<and>
     has ''name'' is_string j \<and>
     has ''centroid'' (array_of is_number) j \<and>
     has ''document_ids'' (array_of is_string) j \<and>
     has ''representative_doc_id'' is_string j"

definition document_shape :: "json \<Rightarrow> bool" where
  "document_shape j \<longleftrightarrow>
     has ''id'' is_string j \<and>
     has ''text'' is_string j \<and>
     has ''embedding'' (array_of is_number) j \<and>
     has ''cluster_id'' string_or_null j \<and>
     has ''metadata'' is_record j \<and>
     has ''created_at'' is_string j \<and>
     has ''updated_at'' is_string j"

definition snapshot_shape :: "json \<Rightarrow> bool" where
  "snapshot_shape j \<longleftrightarrow>
     has ''folders'' (array_of cluster_shape) j \<and>
     has ''documents'' (array_of document_shape) j \<and>
     has ''timestamp'' is_string j"

definition accepts :: "('a \<Rightarrow> 'b option) \<Rightarrow> 'a \<Rightarrow> bool" where
  "accepts p j \<longleftrightarrow> p j \<noteq> None"

section \<open>The API client\<close>

text \<open>
  \<open>LatentFSClient\<close> after its constructor has run: \<open>maxRetries\<close> is a count of retries,
  \<open>retryDelay\<close> and \<open>timeout\<close> are milliseconds.
\<close>

record LatentFSClient =
  baseURL :: string
  maxRetries :: nat
  retryDelay :: nat
  timeout :: nat

record APIError =
  detail :: json
  status :: nat

datatype 'a APIResult = Success 'a | Failure APIError

text \<open>
  What a \<open>catch\<close> can receive: a \<open>ZodError\<close> with its message, any other \<open>Error\<close> with
  its \<open>name\<close> and \<open>message\<close>, or a value that is no \<open>Error\<close>.
\<close>

datatype thrown = ZodError string | Error string string | NonError

text \<open>
  A response carries its status and the result of \<open>response.json()\<close>: the parsed body, or
  a rejection (the body is no JSON text) with the error's message.
\<close>

datatype body = Json json | JsonFails string

record response =
  resp_status :: nat
  statusText :: string
  resp_body :: body

datatype fetch_result = Resolved response | Rejected thrown

text \<open>
  The world outside the client: what \<open>fetch\<close> does with the URL at each attempt (a
  rejection named \<open>AbortError\<close> is the timeout firing), and the message Zod renders for a
  value a schema rejects.
\<close>

record env =
  fetch :: "string \<Rightarrow> nat \<Rightarrow> fetch_result"
  zod_message :: "json \<Rightarrow> string"

definition ok :: "response \<Rightarrow> bool" where
  "ok r \<longleftrightarrow> 200 \<le> resp_status r \<and> resp_status r \<le> 299"

text \<open>Reading a property: of \<open>null\<close> it throws a \<open>TypeError\<close> (the wording of its message
  is the engine's), of a primitive or an array it is \<open>undefined\<close> for the keys read here.\<close>

fun get_prop :: "json \<Rightarrow> string \<Rightarrow> thrown + json option" where
  "get_prop JNull k = Inl (Error ''TypeError'' (''Cannot read properties of null: '' @ k))"
| "get_prop (JObj kvs) k = Inr (map_of kvs k)"
| "get_prop j k = Inr None"

text \<open>\<open>a || b\<close> where \<open>a\<close> may be \<open>undefined\<close>.\<close>

definition or_else :: "json option \<Rightarrow> json \<Rightarrow> json" where
  "or_else a b = (case a of None \<Rightarrow> b | Some v \<Rightarrow> if truthy v then v else b)"

text \<open>\<open>errorData.detail || errorData.message || 'Unknown error'\<close>\<close>

definition error_detail :: "json \<Rightarrow> thrown + json" where
  "error_detail errorData =
     (case get_prop errorData ''detail'' of
        Inl t \<Rightarrow> Inl t
      | Inr d \<Rightarrow>
          (case get_prop errorData ''message'' of
             Inl t \<Rightarrow> Inl t
           | Inr m \<Rightarrow> Inr (or_else d (or_else m (JStr ''Unknown error'')))))"

text \<open>The decimal digits of a number, as a template literal prints it.\<close>

fun string_of_nat :: "nat \<Rightarrow> string" where
  "string_of_nat n =
     (if n < 10 then [''0123456789'' ! n]
      else string_of_nat (n div 10) @ [''0123456789'' ! (n mod 10)])"

text \<open>One pass through the body of the \<open>for\<close> loop ends in a \<open>return\<close> or, after the
  sleep, in \<open>continue\<close>.\<close>

datatype step = Return "json APIResult" | Retry APIError nat

text \<open>The \<open>try\<close> block of \<open>request\<close>.\<close>

definition try_block :: "LatentFSClient \<Rightarrow> env \<Rightarrow> string \<Rightarrow> schema \<Rightarrow> nat \<Rightarrow> thrown + step" where
  "try_block c e url schema attempt =
     (case fetch e url attempt of
        Rejected t \<Rightarrow> Inl t
      | Resolved r \<Rightarrow>
          if \<not> ok r then
            (case error_detail
                    (case resp_body r of
                       Json errorData \<Rightarrow> errorData
                     | JsonFails m \<Rightarrow>
                         JObj [(''detail'',
                           JStr (''HTTP '' @ string_of_nat (resp_status r) @ '': '' @ statusText r))]) of
               Inl t \<Rightarrow> Inl t
             | Inr d \<Rightarrow>
                 (let lastError = \<lparr>detail = d, status = resp_status r\<rparr> in
                  if 400 \<le> resp_status r \<and> resp_status r < 500 then Inr (Return (Failure lastError))
                  else if attempt < maxRetries c
                    then Inr (Retry lastError (retryDelay c * 2 ^ attempt))
                  else Inr (Return (Failure lastError))))
          else
            (case resp_body r of
               JsonFails m \<Rightarrow> Inl (Error ''SyntaxError'' m)
             | Json data \<Rightarrow>
                 (case schema data of
                    None \<Rightarrow> Inl (ZodError (zod_message e data))
                  | Some validated \<Rightarrow> Inr (Return (Success validated)))))"

text \<open>The \<open>catch\<close> block of \<open>request\<close>.\<close>

definition catch_block :: "LatentFSClient \<Rightarrow> nat \<Rightarrow> thrown \<Rightarrow> step" where
  "catch_block c attempt t =
     (case t of
        ZodError m \<Rightarrow>
          Return (Failure \<lparr>detail = JStr (''Invalid response format: '' @ m), status = 0\<rparr>)
      | _ \<Rightarrow>
          (let lastError =
             (case t of
                Error name m \<Rightarrow>
                  if name = ''AbortError'' then \<lparr>detail = JStr ''Request timeout'', status = 0\<rparr>
                  else \<lparr>detail = JStr (if m \<noteq> [] then m else ''Network error''), status = 0\<rparr>
              | _ \<Rightarrow> \<lparr>detail = JStr ''Unknown error occurred'', status = 0\<rparr>)
           in if attempt < maxRetries c
                then Retry lastError (retryDelay c * 2 ^ attempt)
              else Return (Failure lastError)))"

definition attempt_step :: "LatentFSClient \<Rightarrow> env \<Rightarrow> string \<Rightarrow> schema \<Rightarrow> nat \<Rightarrow> step" where
  "attempt_step c e url schema attempt =
     (case try_block c e url schema attempt of
        Inl t \<Rightarrow> catch_block c attempt t
      | Inr s \<Rightarrow> s)"

text \<open>What the client does to the world: the fetches it makes and the sleeps between.\<close>

datatype event = Fetch string nat | Sleep nat

text \<open>The \<open>for\<close> loop of \<open>request\<close>, from \<open>attempt\<close> on, and the \<open>return\<close> after it.\<close>

function request_loop ::
  "LatentFSClient \<Rightarrow> env \<Rightarrow> string \<Rightarrow> schema \<Rightarrow> nat \<Rightarrow> APIError option
     \<Rightarrow> json APIResult \<times> event list" where
  "request_loop c e url schema attempt lastError =
     (if attempt \<le> maxRetries c then
        (case attempt_step c e url schema attempt of
           Return r \<Rightarrow> (r, [Fetch url attempt])
         | Retry err ms \<Rightarrow>
             (case request_loop c e url schema (attempt + 1) (Some err) of
                (r, evs) \<Rightarrow> (r, Fetch url attempt # Sleep ms # evs)))
      else
        (Failure (case lastError of
                    Some err \<Rightarrow> err
                  | None \<Rightarrow> \<lparr>detail = JStr ''Max retries exceeded'', status = 0\<rparr>),
         []))"
  by pat_completeness auto
termination
  by (relation "measure (\<lambda>(c, e, url, schema, attempt, lastError). Suc (maxRetries c) - attempt)")
    auto

declare request_loop.simps [simp del]

definition request :: "LatentFSClient \<Rightarrow> env \<Rightarrow> string \<Rightarrow> schema \<Rightarrow> json APIResult \<times> event list" where
  "request c e endpoint schema = request_loop c e (baseURL c @ endpoint) schema 0 None"

text \<open>The request bodies (\<open>texts\<close>, \<open>document_id\<close>, \<open>target_folder_id\<close>) reach the server
  only; what comes back is the environment's.\<close>

definition ingestDocuments :: "LatentFSClient \<Rightarrow> env \<Rightarrow> string list \<Rightarrow> json APIResult \<times> event list" where
  "ingestDocuments c e texts = request c e ''/ingest'' IngestResponseSchema"

definition getClusters :: "LatentFSClient \<Rightarrow> env \<Rightarrow> json APIResult \<times> event list" where
  "getClusters c e = request c e ''/cluster'' ClusterDataSchema"

definition reEmbedDocument ::
  "LatentFSClient \<Rightarrow> env \<Rightarrow> json option \<Rightarrow> string \<Rightarrow> json APIResult \<times> event list" where
  "reEmbedDocument c e documentId targetFolderId = request c e ''/re-embed'' ReEmbedResponseSchema"

definition getAllDocuments :: "LatentFSClient \<Rightarrow> env \<Rightarrow> json APIResult \<times> event list" where
  "getAllDocuments c e = request c e ''/documents'' DocumentResponseSchema"

text \<open>\<open>createAPIClient()\<close> in the browser.\<close>

definition apiClient :: LatentFSClient where
  "apiClient = \<lparr>baseURL = ''http://localhost:9999/api'', maxRetries = 3, retryDelay = 1000,
     timeout = 30000\<rparr>"

section \<open>Reading results and snapshots\<close>

fun is_success :: "'a APIResult \<Rightarrow> bool" where
  "is_success (Success d) = True"
| "is_success (Failure err) = False"

fun field :: "string \<Rightarrow> json \<Rightarrow> json option" where
  "field k (JObj kvs) = map_of kvs k"
| "field k j = None"

definition items :: "string \<Rightarrow> json \<Rightarrow> json list" where
  "items k j = (case field k j of Some (JArr xs) \<Rightarrow> xs | _ \<Rightarrow> [])"

text \<open>
  The first invariant of the data model, read on a snapshot: a document's \<open>cluster_id\<close> is
  \<open>null\<close> or the \<open>id\<close> of a folder of the same snapshot.
\<close>

definition cluster_id_resolves :: "json list \<Rightarrow> json \<Rightarrow> bool" where
  "cluster_id_resolves folders doc \<longleftrightarrow>
     field ''cluster_id'' doc = Some JNull \<or>
     list_ex (\<lambda>f. field ''id'' f \<noteq> None \<and> field ''id'' f = field ''cluster_id'' doc) folders"

definition cluster_ids_resolve :: "json \<Rightarrow> bool" where
  "cluster_ids_resolve snapshot \<longleftrightarrow>
     list_all (cluster_id_resolves (items ''folders'' snapshot)) (items ''documents'' snapshot)"

text \<open>The shapes of the API surface: the result of \<open>re_embed\<close> and of \<open>ingest\<close>, and the
  \<open>IngestResponse\<close> of \<open>lib/types.ts\<close>.\<close>

definition re_embed_shape :: "json \<Rightarrow> bool" where
  "re_embed_shape j \<longleftrightarrow>
     has ''success'' is_boolean j \<and>
     has ''new_cluster_id'' is_string j \<and>
     has ''updated_clusters'' snapshot_shape j"

definition ingest_shape :: "json \<Rightarrow> bool" where
  "ingest_shape j \<longleftrightarrow>
     has ''document_ids'' (array_of is_string) j \<and>
     has ''count'' is_number j"

definition IngestResponse_shape :: "json \<Rightarrow> bool" where
  "IngestResponse_shape j \<longleftrightarrow>
     has ''success'' is_boolean j \<and>
     has ''document_ids'' (array_of is_string) j \<and>
     has ''count'' is_number j \<and>
     has ''message'' is_string j"

section \<open>Sample data\<close>

definition sample_document :: "string \<Rightarrow> json \<Rightarrow> json" where
  "sample_document ident cluster = JObj
     [(''id'', JStr ident),
      (''text'', JStr ''quarterly report''),
      (''embedding'', JArr [JNum 1, JNum 0]),
      (''cluster_id'', cluster),
      (''metadata'', JObj [(''source'', JStr ''upload'')]),
      (''created_at'', JStr ''2026-01-01T00:00:00''),
      (''updated_at'', JStr ''2026-01-02T00:00:00'')]"

definition sample_folder :: "string \<Rightarrow> string list \<Rightarrow> json" where
  "sample_folder ident members = JObj
     [(''id'', JStr ident),
      (''name'', JStr ''Finance''),
      (''centroid'', JArr [JNum 1, JNum 0]),
      (''document_ids'', JArr (map JStr members)),
      (''representative_doc_id'', JStr (case members of [] \<Rightarrow> [] | m # ms \<Rightarrow> m))]"

definition sample_snapshot :: json where
  "sample_snapshot = JObj
     [(''folders'', JArr [sample_folder ''c1'' [''d1'']]),
      (''documents'', JArr [sample_document ''d1'' (JStr ''c1''), sample_document ''d2'' JNull]),
      (''timestamp'', JStr ''2026-01-02T00:00:00'')]"

text \<open>A snapshot whose only document names a cluster that is not among the folders.\<close>

definition dangling_snapshot :: json where
  "dangling_snapshot = JObj
     [(''folders'', JArr []),
      (''documents'', JArr [sample_document ''d1'' (JStr ''c9'')]),
      (''timestamp'', JStr ''2026-01-02T00:00:00'')]"

definition sample_re_embed :: json where
  "sample_re_embed = JObj
     [(''success'', JBool True),
      (''new_cluster_id'', JStr ''c1''),
      (''updated_clusters'', sample_snapshot)]"

text \<open>A body of the shape \<open>{ document_ids, count }\<close> and nothing more.\<close>

definition bare_ingest :: json where
  "bare_ingest = JObj [(''document_ids'', JArr [JStr ''d1'']), (''count'', JNum 1)]"

definition sample_ingest :: json where
  "sample_ingest = JObj
     [(''success'', JBool True),
      (''document_ids'', JArr [JStr ''d1'']),
      (''count'', JNum 1),
      (''message'', JStr ''Successfully ingested 1 documents'')]"

text \<open>A server that answers every attempt with the same status and JSON body.\<close>

definition answering :: "nat \<Rightarrow> string \<Rightarrow> json \<Rightarrow> env" where
  "answering code txt b =
     \<lparr>fetch = (\<lambda>url attempt. Resolved \<lparr>resp_status = code, statusText = txt, resp_body = Json b\<rparr>),
      zod_message = (\<lambda>j. ''[]'')\<rparr>"

section \<open>Toasts: \<open>hooks/useToast.ts\<close> and \<open>components/Toast.tsx\<close>\<close>

datatype ToastType = ErrorToast | SuccessToast | InfoToast

text \<open>
  The one closure that is ever passed as \<open>onRetry\<close>:
  \<open>() => handleFolderDrop(targetFolderId, documentId)\<close>. It calls the \<open>handleFolderDrop\<close> of
  the render in which it was written, so it carries the \<open>isReEmbedding\<close> that render saw.
\<close>

record retry_closure =
  captured_isReEmbedding :: bool
  retry_targetFolderId :: string
  retry_documentId :: "json option"

record Toast =
  toast_id :: string
  toast_type :: ToastType
  message :: json
  canRetry :: "bool option"
  onRetry :: "retry_closure option"
  duration :: "nat option"

record toast_options =
  opt_canRetry :: "bool option"
  opt_onRetry :: "retry_closure option"
  opt_duration :: "nat option"

text \<open>\<open>fresh\<close> is the id \<open>toast-${Date.now()}-${Math.random()}\<close> made for the new toast.\<close>

definition showToast ::
  "string \<Rightarrow> ToastType \<Rightarrow> json \<Rightarrow> toast_options option \<Rightarrow> Toast list \<Rightarrow> Toast list" where
  "showToast fresh type msg options prev =
     prev @
     [\<lparr>toast_id = fresh, toast_type = type, message = msg,
       canRetry = (case options of None \<Rightarrow> None | Some opts \<Rightarrow> opt_canRetry opts),
       onRetry = (case options of None \<Rightarrow> None | Some opts \<Rightarrow> opt_onRetry opts),
       duration = (case options of None \<Rightarrow> None | Some opts \<Rightarrow> opt_duration opts)\<rparr>]"

definition dismissToast :: "string \<Rightarrow> Toast list \<Rightarrow> Toast list" where
  "dismissToast ident prev = filter (\<lambda>toast. toast_id toast \<noteq> ident) prev"

text \<open>\<open>showError\<close> takes the options without a duration and sets it: 0 when \<open>canRetry\<close> is
  true, 7000 otherwise.\<close>

definition showError ::
  "string \<Rightarrow> json \<Rightarrow> (bool option \<times> retry_closure option) option \<Rightarrow> Toast list \<Rightarrow> Toast list" where
  "showError fresh msg options prev =
     showToast fresh ErrorToast msg
       (Some \<lparr>opt_canRetry = (case options of None \<Rightarrow> None | Some (cr, r) \<Rightarrow> cr),
              opt_onRetry = (case options of None \<Rightarrow> None | Some (cr, r) \<Rightarrow> r),
              opt_duration =
                Some (if (case options of None \<Rightarrow> None | Some (cr, r) \<Rightarrow> cr) = Some True
                      then 0 else 7000)\<rparr>)
       prev"

definition showSuccess :: "string \<Rightarrow> json \<Rightarrow> nat option \<Rightarrow> Toast list \<Rightarrow> Toast list" where
  "showSuccess fresh msg dur prev =
     showToast fresh SuccessToast msg
       (Some \<lparr>opt_canRetry = None, opt_onRetry = None,
              opt_duration = Some (case dur of None \<Rightarrow> 4000 | Some d \<Rightarrow> d)\<rparr>)
       prev"

text \<open>The effect of \<open>ToastItem\<close>: the delay after which the toast dismisses itself, if it
  sets a timer at all.\<close>

definition auto_dismiss :: "Toast \<Rightarrow> nat option" where
  "auto_dismiss toast =
     (let d = (case duration toast of None \<Rightarrow> 5000 | Some d \<Rightarrow> d)
      in if d > 0 then Some d else None)"

text \<open>The Retry button is rendered when \<open>canRetry && onRetry\<close>.\<close>

definition retry_button :: "Toast \<Rightarrow> retry_closure option" where
  "retry_button toast = (if canRetry toast = Some True then onRetry toast else None)"

section \<open>Dragging a document onto a folder\<close>

record Document =
  doc_id :: string
  doc_text :: string
  embedding :: "real list"
  cluster_id :: "string option"
  metadata :: "(string \<times> json) list"
  created_at :: string
  updated_at :: string

text \<open>What \<open>DocumentCardNative.handleDragStart\<close> stores in the data transfer, as
  \<open>JSON.parse\<close> reads it back.\<close>

definition handleDragStart :: "Document \<Rightarrow> json" where
  "handleDragStart doc = JObj
     [(''documentId'', JStr (doc_id doc)),
      (''sourceFolderId'', (case cluster_id doc of None \<Rightarrow> JNull | Some cid \<Rightarrow> JStr cid))]"

record FolderItem_state =
  dragOver :: bool
  canAcceptDrop :: bool

text \<open>
  \<open>FolderItem.handleDrop\<close> on the folder with this id. The payload is what \<open>JSON.parse\<close>
  makes of the transferred text, \<open>None\<close> where it throws. The result is the item's state
  and the argument of the call to \<open>onDrop\<close>, if it is called.
\<close>

definition handleDrop :: "json option \<Rightarrow> string \<Rightarrow> FolderItem_state \<times> json option option" where
  "handleDrop payload folder_id =
     (\<lparr>dragOver = False, canAcceptDrop = False\<rparr>,
      (case payload of
         None \<Rightarrow> None
       | Some parsed \<Rightarrow>
           (case get_prop parsed ''documentId'' of
              Inl t \<Rightarrow> None
            | Inr documentId \<Rightarrow>
                (case get_prop parsed ''sourceFolderId'' of
                   Inl t \<Rightarrow> None
                 | Inr sourceFolderId \<Rightarrow>
                     if sourceFolderId \<noteq> Some (JStr folder_id) then Some documentId else None))))"

section \<open>\<open>FileSystemView\<close>\<close>

text \<open>
  The state of the component, the calls to \<open>apiClient.reEmbedDocument\<close> it has made, and
  the invocations of \<open>handleFolderDrop\<close> that wait at the \<open>await\<close>.
\<close>

record view =
  selectedFolderId :: "string option"
  clusterData :: "json option"
  isReEmbedding :: bool
  updateCounter :: nat
  toasts :: "Toast list"
  issued :: "(json option \<times> string) list"
  pending :: "retry_closure list"

definition FileSystemView :: "json option \<Rightarrow> view" where
  "FileSystemView initialData =
     \<lparr>selectedFolderId = None, clusterData = initialData, isReEmbedding = False,
      updateCounter = 0, toasts = [], issued = [], pending = []\<rparr>"

text \<open>
  \<open>handleFolderDrop\<close> up to the \<open>await\<close>. \<open>captured\<close> is the \<open>isReEmbedding\<close> of the render
  that made this handler.
\<close>

definition handleFolderDrop :: "bool \<Rightarrow> string \<Rightarrow> string \<Rightarrow> json option \<Rightarrow> view \<Rightarrow> view" where
  "handleFolderDrop captured fresh targetFolderId documentId v =
     (if captured then
        v\<lparr>toasts :=
            showError fresh (JStr ''Please wait for the current operation to complete'') None
              (toasts v)\<rparr>
      else
        v\<lparr>isReEmbedding := True,
          issued := issued v @ [(documentId, targetFolderId)],
          pending := pending v @
            [\<lparr>captured_isReEmbedding = captured, retry_targetFolderId = targetFolderId,
              retry_documentId = documentId\<rparr>]\<rparr>)"

text \<open>How the awaited call ends.\<close>

datatype settled = Returned "json APIResult" | Threw thrown

text \<open>\<open>result.data.updated_clusters.folders\<close> and \<open>.documents\<close>, where they are arrays.\<close>

definition updated_clusters :: "json \<Rightarrow> (json list \<times> json list) option" where
  "updated_clusters d =
     (case field ''updated_clusters'' d of
        None \<Rightarrow> None
      | Some u \<Rightarrow>
          (case (field ''folders'' u, field ''documents'' u) of
             (Some (JArr fs), Some (JArr ds)) \<Rightarrow> Some (fs, ds)
           | _ \<Rightarrow> None))"

text \<open>The toast of the two error branches.\<close>

definition retry_error ::
  "string \<Rightarrow> json \<Rightarrow> retry_closure \<Rightarrow> Toast list \<Rightarrow> Toast list" where
  "retry_error fresh msg call prev = showError fresh msg (Some (Some True, Some call)) prev"

text \<open>
  \<open>handleFolderDrop\<close> from the \<open>await\<close> on, for the invocation \<open>call\<close>; \<open>now\<close> is
  \<open>new Date().toISOString()\<close>. Data that is no re-embed response makes the reads of the
  success branch throw a \<open>TypeError\<close> before any state is set; its message is the
  engine's.
\<close>

definition resume :: "retry_closure \<Rightarrow> settled \<Rightarrow> string \<Rightarrow> string \<Rightarrow> view \<Rightarrow> view" where
  "resume call outcome fresh now v =
     (case outcome of
        Returned (Success d) \<Rightarrow>
          (case updated_clusters d of
             Some (fs, ds) \<Rightarrow>
               v\<lparr>selectedFolderId := None,
                 clusterData := Some (JObj
                   [(''folders'', JArr fs), (''documents'', JArr ds), (''timestamp'', JStr now)]),
                 updateCounter := updateCounter v + 1,
                 toasts := showSuccess fresh (JStr ''Document moved successfully!'') None (toasts v),
                 isReEmbedding := False\<rparr>
           | None \<Rightarrow>
               v\<lparr>toasts := retry_error fresh (JStr ''Cannot read properties of undefined'') call
                    (toasts v),
                 isReEmbedding := False\<rparr>)
      | Returned (Failure err) \<Rightarrow>
          v\<lparr>toasts := retry_error fresh
                 (or_else (Some (detail err)) (JStr ''Failed to move document'')) call (toasts v),
            isReEmbedding := False\<rparr>
      | Threw t \<Rightarrow>
          v\<lparr>toasts := retry_error fresh
                 (JStr (case t of
                          ZodError m \<Rightarrow> m
                        | Error name m \<Rightarrow> m
                        | NonError \<Rightarrow> ''An unexpected error occurred'')) call (toasts v),
            isReEmbedding := False\<rparr>)"

text \<open>
  What happens to the view, one event at a time. A drop reaches \<open>handleFolderDrop\<close>
  through \<open>FolderItem.handleDrop\<close> and the \<open>Sidebar\<close>, which holds the handler of the
  latest render. A click on Retry runs the toast's closure and dismisses the toast.
\<close>

datatype ui_event =
    Drop "json option" string string
  | Settle nat settled string string
  | ClickRetry string string
  | Dismiss string

fun ui_step :: "view \<Rightarrow> ui_event \<Rightarrow> view" where
  "ui_step v (Drop payload folder_id fresh) =
     (case snd (handleDrop payload folder_id) of
        None \<Rightarrow> v
      | Some documentId \<Rightarrow> handleFolderDrop (isReEmbedding v) fresh folder_id documentId v)"
| "ui_step v (Settle i outcome fresh now) =
     (if i < length (pending v)
      then resume (pending v ! i) outcome fresh now
             (v\<lparr>pending := take i (pending v) @ drop (Suc i) (pending v)\<rparr>)
      else v)"
| "ui_step v (ClickRetry ident fresh) =
     (case List.find (\<lambda>toast. toast_id toast = ident) (toasts v) of
        None \<Rightarrow> v
      | Some toast \<Rightarrow>
          (case retry_button toast of
             None \<Rightarrow> v
           | Some call \<Rightarrow>
               (let v' = handleFolderDrop (captured_isReEmbedding call) fresh
                           (retry_targetFolderId call) (retry_documentId call) v
                in v'\<lparr>toasts := dismissToast ident (toasts v')\<rparr>)))"
| "ui_step v (Dismiss ident) = v\<lparr>toasts := dismissToast ident (toasts v)\<rparr>"

definition run :: "view \<Rightarrow> ui_event list \<Rightarrow> view" where
  "run v evs = foldl ui_step v evs"

fun no_retry_click :: "ui_event \<Rightarrow> bool" where
  "no_retry_click (ClickRetry ident fresh) = False"
| "no_retry_click ev = True"

section \<open>\<open>useClusterData\<close>\<close>

record cluster_data_state =
  data :: "json option"
  loading :: bool
  error :: "APIError option"

definition useClusterData :: "bool \<Rightarrow> cluster_data_state" where
  "useClusterData fetchOnMount = \<lparr>data = None, loading = fetchOnMount, error = None\<rparr>"

text \<open>\<open>fetchData\<close> up to the \<open>await\<close>, and from it on.\<close>

definition fetchData_begin :: "cluster_data_state \<Rightarrow> cluster_data_state" where
  "fetchData_begin s = s\<lparr>loading := True, error := None\<rparr>"

definition fetchData_end :: "settled \<Rightarrow> cluster_data_state \<Rightarrow> cluster_data_state" where
  "fetchData_end outcome s =
     (case outcome of
        Returned (Success d) \<Rightarrow> s\<lparr>data := Some d, error := None, loading := False\<rparr>
      | Returned (Failure err) \<Rightarrow> s\<lparr>error := Some err, loading := False\<rparr>
      | Threw t \<Rightarrow>
          s\<lparr>error := Some
               \<lparr>detail = JStr (case t of
                                 ZodError m \<Rightarrow> m
                               | Error name m \<Rightarrow> m
                               | NonError \<Rightarrow> ''Unknown error occurred''),
                status = 0\<rparr>,
            loading := False\<rparr>)"

definition fetchData :: "settled \<Rightarrow> cluster_data_state \<Rightarrow> cluster_data_state" where
  "fetchData outcome s = fetchData_end outcome (fetchData_begin s)"

fun is_fetch_success :: "settled \<Rightarrow> bool" where
  "is_fetch_success (Returned (Success d)) = True"
| "is_fetch_success outcome = False"

section \<open>\<open>GridView\<close>\<close>

datatype grid_content = EmptyState string | DocumentGrid "Document list"

record grid =
  heading :: string
  shown_count :: nat
  noun :: string
  content :: grid_content

text \<open>A \<open>string | null\<close> in a condition: \<open>null\<close> and the empty string are falsy.\<close>

definition truthy_string :: "string option \<Rightarrow> bool" where
  "truthy_string s = (case s of None \<Rightarrow> False | Some t \<Rightarrow> t \<noteq> [])"

definition filteredDocuments :: "Document list \<Rightarrow> string option \<Rightarrow> Document list" where
  "filteredDocuments documents sel =
     (if truthy_string sel then filter (\<lambda>doc. cluster_id doc = sel) documents else documents)"

definition GridView :: "Document list \<Rightarrow> string option \<Rightarrow> grid" where
  "GridView documents sel =
     (let filtered = filteredDocuments documents sel in
      \<lparr>heading = (if truthy_string sel then ''Folder Contents'' else ''All Documents''),
       shown_count = length filtered,
       noun = (if length filtered = 1 then ''document'' else ''documents''),
       content =
         (if length filtered = 0
          then EmptyState (if truthy_string sel then ''folder-empty'' else ''no-documents'')
          else DocumentGrid filtered)\<rparr>)"

text \<open>The documents the grid shows, and the selection as the interface describes it.\<close>

fun rendered :: "grid_content \<Rightarrow> Document list" where
  "rendered (EmptyState kind) = []"
| "rendered (DocumentGrid docs) = docs"

fun placeholder_shown :: "grid_content \<Rightarrow> bool" where
  "placeholder_shown (EmptyState kind) = True"
| "placeholder_shown (DocumentGrid docs) = False"

definition selected_documents :: "Document list \<Rightarrow> string option \<Rightarrow> Document list" where
  "selected_documents documents sel =
     (case sel of
        None \<Rightarrow> documents
      | Some folder \<Rightarrow> filter (\<lambda>doc. cluster_id doc = Some folder) documents)"

definition typed_document :: "string \<Rightarrow> string option \<Rightarrow> Document" where
  "typed_document ident cluster =
     \<lparr>doc_id = ident, doc_text = ''quarterly report'', embedding = [1, 0], cluster_id = cluster,
      metadata = [], created_at = ''2026-01-01T00:00:00'', updated_at = ''2026-01-02T00:00:00''\<rparr>"

section \<open>Counting what a request did\<close>

fun is_fetch :: "event \<Rightarrow> bool" where
  "is_fetch (Fetch url attempt) = True"
| "is_fetch (Sleep ms) = False"

definition attempts :: "event list \<Rightarrow> nat" where
  "attempts evs = length (filter is_fetch evs)"

text \<open>The error a pass through the loop body leaves has a truthy detail.\<close>

fun step_detail_truthy :: "step \<Rightarrow> bool" where
  "step_detail_truthy (Return (Success d)) = True"
| "step_detail_truthy (Return (Failure err)) = truthy (detail err)"
| "step_detail_truthy (Retry err ms) = truthy (detail err)"

section \<open>Error toasts of the view\<close>

text \<open>The message an exception carries, if it is an \<open>Error\<close>.\<close>

definition thrown_message :: "thrown \<Rightarrow> string option" where
  "thrown_message t = (case t of ZodError m \<Rightarrow> Some m | Error name m \<Rightarrow> Some m | NonError \<Rightarrow> None)"

text \<open>An error toast that offers to drop the document on the folder again.\<close>

abbreviation retry_toast :: "string \<Rightarrow> json \<Rightarrow> string \<Rightarrow> json option \<Rightarrow> Toast" where
  "retry_toast ident msg targetFolderId documentId \<equiv>
     \<lparr>toast_id = ident, toast_type = ErrorToast, message = msg, canRetry = Some True,
      onRetry = Some \<lparr>captured_isReEmbedding = False, retry_targetFolderId = targetFolderId,
                      retry_documentId = documentId\<rparr>,
      duration = Some 0\<rparr>"

text \<open>The error toast of the guard at the head of \<open>handleFolderDrop\<close>.\<close>

abbreviation wait_toast :: "string \<Rightarrow> Toast" where
  "wait_toast ident \<equiv>
     \<lparr>toast_id = ident, toast_type = ErrorToast,
      message = JStr ''Please wait for the current operation to complete'',
      canRetry = None, onRetry = None, duration = Some 7000\<rparr>"

text \<open>Either no re-embed is under way, or the flag is set and one call waits.\<close>

definition one_in_flight :: "view \<Rightarrow> bool" where
  "one_in_flight v \<longleftrightarrow>
     (if isReEmbedding v then length (pending v) = 1 else pending v = [])"

text \<open>Two documents without a cluster are dropped on folder \<open>c1\<close>, the second while the
  request for the first is under way; then the first request succeeds.\<close>

definition two_drops :: "ui_event list" where
  "two_drops =
     [Drop (Some (handleDragStart (typed_document ''d2'' None))) ''c1'' ''toast-1'',
      Drop (Some (handleDragStart (typed_document ''d3'' None))) ''c1'' ''toast-2'',
      Settle 0 (Returned (Success sample_re_embed)) ''toast-3'' ''2026-01-03T00:00:00'']"

text \<open>A drop fails and leaves its toast; during the next drop's request the toast's Retry
  is clicked.\<close>

definition retry_during_drop :: "ui_event list" where
  "retry_during_drop =
     [Drop (Some (handleDragStart (typed_document ''d2'' None))) ''c1'' ''toast-1'',
      Settle 0 (Returned (Failure \<lparr>detail = JStr ''Request timeout'', status = 0\<rparr>))
        ''toast-2'' ''2026-01-03T00:00:00'',
      Drop (Some (handleDragStart (typed_document ''d3'' None))) ''c1'' ''toast-3'',
      ClickRetry ''toast-2'' ''toast-4'']"

section \<open>What the schemas accept\<close>

lemma those_map_None: "those (map p xs) = None \<longleftrightarrow> \<not> list_all (accepts p) xs"
  by (induction xs) (auto simp: accepts_def split: option.splits)

lemma accepts_string: "accepts z_string = is_string"
  by (rule ext) (simp add: accepts_def z_string_def split: json.splits)

lemma accepts_number: "accepts z_number = is_number"
  by (rule ext) (simp add: accepts_def z_number_def split: json.splits)

lemma accepts_boolean: "accepts z_boolean = is_boolean"
  by (rule ext) (simp add: accepts_def z_boolean_def split: json.splits)

lemma accepts_nullable_string: "accepts (z_nullable z_string) = string_or_null"
  by (rule ext) (simp add: accepts_def z_nullable_def z_string_def split: json.splits)

lemma accepts_entry: "accepts (z_entry z_string z_any) kv"
  by (simp add: accepts_def z_entry_def z_string_def z_any_def)

lemma accepts_record_any: "accepts (z_record z_string z_any) = is_record"
proof (rule ext)
  fix j
  have "those (map (z_entry z_string z_any) kvs) \<noteq> None" for kvs
    unfolding those_map_None by (simp add: list_all_iff accepts_entry)
  then show "accepts (z_record z_string z_any) j = is_record j"
    by (cases j) (simp_all add: accepts_def z_record_def del: not_None_eq)
qed

lemma accepts_array: "accepts (z_array p) = array_of (accepts p)"
proof (rule ext)
  fix j
  show "accepts (z_array p) j = array_of (accepts p) j"
    by (cases j) (simp_all add: accepts_def [of "z_array p"] z_array_def those_map_None)
qed

lemma accepts_field: "accepts (z_field kvs) (k, p) \<longleftrightarrow> has k (accepts p) (JObj kvs)"
  by (simp add: z_field_def accepts_def split: option.splits)

lemma accepts_object_Nil: "accepts (z_object []) j = is_record j"
  by (cases j) (simp_all add: accepts_def z_object_def)

lemma accepts_object_Cons:
  "accepts (z_object ((k, p) # shape)) j \<longleftrightarrow> has k (accepts p) j \<and> accepts (z_object shape) j"
proof (cases j)
  case (JObj kvs)
  have "accepts (z_object sh) (JObj kvs) \<longleftrightarrow> list_all (accepts (z_field kvs)) sh" for sh
    by (simp add: accepts_def [of "z_object sh"] z_object_def those_map_None)
  then show ?thesis
    by (simp add: JObj accepts_field)
qed (simp_all add: accepts_def z_object_def)

lemma has_record: "has k P j \<Longrightarrow> is_record j"
  by (cases j) simp_all

lemma accepts_ClusterSchema: "accepts ClusterSchema = cluster_shape"
  by (rule ext)
    (auto simp: ClusterSchema_def cluster_shape_def accepts_object_Cons accepts_object_Nil
      accepts_string accepts_number accepts_array dest: has_record)

lemma accepts_DocumentSchema: "accepts DocumentSchema = document_shape"
  by (rule ext)
    (auto simp: DocumentSchema_def document_shape_def accepts_object_Cons accepts_object_Nil
      accepts_string accepts_number accepts_array accepts_nullable_string accepts_record_any
      dest: has_record)

lemma accepts_ClusterDataSchema: "accepts ClusterDataSchema = snapshot_shape"
  by (rule ext)
    (auto simp: ClusterDataSchema_def snapshot_shape_def accepts_object_Cons accepts_object_Nil
      accepts_string accepts_array accepts_ClusterSchema accepts_DocumentSchema
      dest: has_record)

section \<open>A response that is \<open>ok\<close>\<close>

lemma request_loop_ok:
  assumes "fetch e url attempt = Resolved r" and "ok r" and "resp_body r = Json v"
    and "attempt \<le> maxRetries c"
  shows "request_loop c e url schema attempt lastError =
     (case schema v of
        Some d \<Rightarrow> (Success d, [Fetch url attempt])
      | None \<Rightarrow>
          (Failure \<lparr>detail = JStr (''Invalid response format: '' @ zod_message e v), status = 0\<rparr>,
           [Fetch url attempt]))"
proof -
  have "attempt_step c e url schema attempt =
     (case schema v of
        Some d \<Rightarrow> Return (Success d)
      | None \<Rightarrow>
          Return (Failure
            \<lparr>detail = JStr (''Invalid response format: '' @ zod_message e v), status = 0\<rparr>))"
    using assms(1-3)
    by (simp add: attempt_step_def try_block_def catch_block_def split: option.splits)
  with assms(4) show ?thesis
    by (simp add: request_loop.simps [of c e url schema attempt] split: option.splits)
qed

lemma request_ok:
  assumes "fetch e (baseURL c @ endpoint) 0 = Resolved r" and "ok r" and "resp_body r = Json v"
  shows "request c e endpoint schema =
     (case schema v of
        Some d \<Rightarrow> (Success d, [Fetch (baseURL c @ endpoint) 0])
      | None \<Rightarrow>
          (Failure \<lparr>detail = JStr (''Invalid response format: '' @ zod_message e v), status = 0\<rparr>,
           [Fetch (baseURL c @ endpoint) 0]))"
  unfolding request_def using assms by (intro request_loop_ok) simp_all

section \<open>The snapshot a client accepts\<close>

lemma items_array_of:
  "has k (array_of P) j \<Longrightarrow> list_all P (items k j)"
  by (cases j) (auto simp: items_def split: option.splits json.splits)

text \<open>
  C1. When the response to \<open>GET /cluster\<close> is \<open>ok\<close> with JSON body \<open>v\<close>, \<open>getClusters\<close>
  returns a success exactly when \<open>v\<close> is an object whose \<open>folders\<close> is an array of objects
  with \<open>id\<close>, \<open>name\<close>, \<open>representative_doc_id\<close> strings, \<open>centroid\<close> an array of numbers and
  \<open>document_ids\<close> an array of strings, whose \<open>documents\<close> is an array of objects with \<open>id\<close>,
  \<open>text\<close>, \<open>created_at\<close>, \<open>updated_at\<close> strings, \<open>embedding\<close> an array of numbers,
  \<open>cluster_id\<close> a string or \<open>null\<close> and \<open>metadata\<close> a record, and whose \<open>timestamp\<close> is a
  string; keys beyond these are ignored.
\<close>

theorem getClusters_accepts_snapshot_shape:
  assumes "fetch e (baseURL c @ ''/cluster'') 0 = Resolved r" and "ok r" and "resp_body r = Json v"
  shows "is_success (fst (getClusters c e)) \<longleftrightarrow> snapshot_shape v"
proof -
  have "is_success (fst (getClusters c e)) \<longleftrightarrow> accepts ClusterDataSchema v"
    unfolding getClusters_def
    by (simp add: request_ok [OF assms] accepts_def split: option.splits)
  then show ?thesis
    by (simp add: accepts_ClusterDataSchema)
qed

lemma snapshot_shape_sample: "snapshot_shape sample_snapshot"
  by (simp add: snapshot_shape_def sample_snapshot_def cluster_shape_def document_shape_def
      sample_folder_def sample_document_def)

theorem getClusters_accepts_snapshot_shape_witness:
  "is_success (fst (getClusters apiClient (answering 200 ''OK'' sample_snapshot)))
   \<and> \<not> is_success (fst (getClusters apiClient (answering 200 ''OK'' (JArr []))))"
proof -
  have "is_success (fst (getClusters apiClient (answering 200 ''OK'' b))) \<longleftrightarrow> snapshot_shape b"
    for b
    by (rule getClusters_accepts_snapshot_shape
        [of _ _ "\<lparr>resp_status = 200, statusText = ''OK'', resp_body = Json b\<rparr>"])
      (simp_all add: answering_def ok_def)
  moreover have "\<not> snapshot_shape (JArr [])"
    by (simp add: snapshot_shape_def)
  ultimately show ?thesis
    using snapshot_shape_sample by simp
qed

text \<open>
  C2, as the code has it. A snapshot that \<open>ClusterDataSchema\<close> accepts has, in every
  document, a \<open>cluster_id\<close> that is \<open>null\<close> or a string; the schema does not compare it with
  the ids of the folders.
\<close>

theorem accepted_cluster_id_string_or_null:
  assumes "accepts ClusterDataSchema v"
  shows "list_all (has ''cluster_id'' string_or_null) (items ''documents'' v)"
proof -
  from assms have "has ''documents'' (array_of document_shape) v"
    by (simp add: accepts_ClusterDataSchema snapshot_shape_def)
  then have "list_all document_shape (items ''documents'' v)"
    by (rule items_array_of)
  then show ?thesis
    by (simp add: list_all_iff document_shape_def)
qed

lemma accepts_dangling: "accepts ClusterDataSchema dangling_snapshot"
  by (simp add: accepts_ClusterDataSchema snapshot_shape_def dangling_snapshot_def
      document_shape_def sample_document_def)

theorem accepted_cluster_id_string_or_null_witness:
  "accepts ClusterDataSchema dangling_snapshot
   \<and> list_all (has ''cluster_id'' string_or_null) (items ''documents'' dangling_snapshot)"
  using accepted_cluster_id_string_or_null [OF accepts_dangling] accepts_dangling
  by simp

text \<open>
  C2, as the specification words it, fails: the schema accepts a snapshot with no folder
  in which a document's \<open>cluster_id\<close> is the string \<open>c9\<close>.
\<close>

theorem cluster_id_may_dangle:
  "ClusterDataSchema dangling_snapshot = Some dangling_snapshot
   \<and> \<not> cluster_ids_resolve dangling_snapshot"
  by (simp add: ClusterDataSchema_def DocumentSchema_def ClusterSchema_def z_object_def
      z_field_def z_array_def z_string_def z_number_def z_nullable_def z_record_def z_entry_def
      z_any_def dangling_snapshot_def sample_document_def cluster_ids_resolve_def
      cluster_id_resolves_def items_def)

section \<open>Re-embed and ingest responses\<close>

lemma accepts_ClusterResponseSchema: "accepts ClusterResponseSchema = snapshot_shape"
  by (rule ext)
    (auto simp: ClusterResponseSchema_def snapshot_shape_def accepts_object_Cons accepts_object_Nil
      accepts_string accepts_array accepts_ClusterSchema accepts_DocumentSchema
      dest: has_record)

lemma accepts_ReEmbedResponseSchema: "accepts ReEmbedResponseSchema = re_embed_shape"
  by (rule ext)
    (auto simp: ReEmbedResponseSchema_def re_embed_shape_def accepts_object_Cons
      accepts_object_Nil accepts_string accepts_boolean accepts_ClusterResponseSchema
      dest: has_record)

lemma accepts_IngestResponseSchema: "accepts IngestResponseSchema = IngestResponse_shape"
  by (rule ext)
    (auto simp: IngestResponseSchema_def IngestResponse_shape_def accepts_object_Cons
      accepts_object_Nil accepts_string accepts_boolean accepts_number accepts_array
      dest: has_record)

lemma eq_None_accepts: "p j = None \<longleftrightarrow> \<not> accepts p j"
  by (simp add: accepts_def)

lemma status_200_ok: "resp_status r = 200 \<Longrightarrow> ok r"
  by (simp add: ok_def)

text \<open>
  C3. When the response to \<open>POST /re-embed\<close> has status 200 and JSON body \<open>b\<close>,
  \<open>reEmbedDocument\<close> returns a success exactly when \<open>b\<close> is an object with \<open>success\<close> a
  boolean, \<open>new_cluster_id\<close> a string and \<open>updated_clusters\<close> a snapshot; and a body in which
  \<open>new_cluster_id\<close> or \<open>updated_clusters\<close> is missing or of another type comes back as a
  failure carrying an error of status 0 whose detail starts \<open>Invalid response format\<close>,
  after that one attempt.
\<close>

theorem reEmbedDocument_validates_body:
  assumes "fetch e (baseURL c @ ''/re-embed'') 0 = Resolved r"
    and "resp_status r = 200" and "resp_body r = Json b"
  shows "(is_success (fst (reEmbedDocument c e documentId targetFolderId)) \<longleftrightarrow> re_embed_shape b)
    \<and> (\<not> has ''new_cluster_id'' is_string b \<or> \<not> has ''updated_clusters'' snapshot_shape b \<longrightarrow>
         reEmbedDocument c e documentId targetFolderId =
           (Failure \<lparr>detail = JStr (''Invalid response format: '' @ zod_message e b), status = 0\<rparr>,
            [Fetch (baseURL c @ ''/re-embed'') 0]))"
proof -
  note req = request_ok [OF assms(1) status_200_ok [OF assms(2)] assms(3),
      of ReEmbedResponseSchema]
  have acc: "ReEmbedResponseSchema b = None \<longleftrightarrow> \<not> re_embed_shape b"
    by (simp add: eq_None_accepts accepts_ReEmbedResponseSchema)
  have "is_success (fst (reEmbedDocument c e documentId targetFolderId)) \<longleftrightarrow> re_embed_shape b"
    using acc by (cases "ReEmbedResponseSchema b") (simp_all add: reEmbedDocument_def req)
  moreover have "reEmbedDocument c e documentId targetFolderId =
      (Failure \<lparr>detail = JStr (''Invalid response format: '' @ zod_message e b), status = 0\<rparr>,
       [Fetch (baseURL c @ ''/re-embed'') 0])"
    if "\<not> re_embed_shape b"
    using that acc by (cases "ReEmbedResponseSchema b") (simp_all add: reEmbedDocument_def req)
  ultimately show ?thesis
    by (auto simp: re_embed_shape_def)
qed

lemma re_embed_shape_sample: "re_embed_shape sample_re_embed"
  by (simp add: re_embed_shape_def sample_re_embed_def snapshot_shape_sample)

theorem reEmbedDocument_validates_body_witness:
  "is_success (fst (reEmbedDocument apiClient (answering 200 ''OK'' sample_re_embed)
      (Some (JStr ''d1'')) ''c1''))
   \<and> reEmbedDocument apiClient (answering 200 ''OK'' (JObj [(''success'', JBool True)]))
        (Some (JStr ''d1'')) ''c1'' =
       (Failure \<lparr>detail = JStr ''Invalid response format: []'', status = 0\<rparr>,
        [Fetch ''http://localhost:9999/api/re-embed'' 0])"
proof -
  have "is_success (fst (reEmbedDocument apiClient (answering 200 ''OK'' sample_re_embed)
      (Some (JStr ''d1'')) ''c1''))"
    using reEmbedDocument_validates_body
      [of "answering 200 ''OK'' sample_re_embed" apiClient
        "\<lparr>resp_status = 200, statusText = ''OK'', resp_body = Json sample_re_embed\<rparr>"
        sample_re_embed "Some (JStr ''d1'')" "''c1''"]
      re_embed_shape_sample
    by (simp add: answering_def)
  moreover have "reEmbedDocument apiClient (answering 200 ''OK'' (JObj [(''success'', JBool True)]))
        (Some (JStr ''d1'')) ''c1'' =
       (Failure \<lparr>detail = JStr ''Invalid response format: []'', status = 0\<rparr>,
        [Fetch ''http://localhost:9999/api/re-embed'' 0])"
    using reEmbedDocument_validates_body
      [of "answering 200 ''OK'' (JObj [(''success'', JBool True)])" apiClient
        "\<lparr>resp_status = 200, statusText = ''OK'',
           resp_body = Json (JObj [(''success'', JBool True)])\<rparr>"
        "JObj [(''success'', JBool True)]" "Some (JStr ''d1'')" "''c1''"]
    by (simp add: answering_def apiClient_def)
  ultimately show ?thesis
    by simp
qed

text \<open>
  C6, as the code has it. When the response to \<open>POST /ingest\<close> has status 200 and JSON body
  \<open>b\<close>, \<open>ingestDocuments\<close> returns a success exactly when \<open>b\<close> is an object with \<open>success\<close>
  a boolean, \<open>document_ids\<close> an array of strings, \<open>count\<close> a number and \<open>message\<close> a
  string: the \<open>IngestResponse\<close> of \<open>lib/types.ts\<close>.
\<close>

theorem ingestDocuments_validates_body:
  assumes "fetch e (baseURL c @ ''/ingest'') 0 = Resolved r"
    and "resp_status r = 200" and "resp_body r = Json b"
  shows "is_success (fst (ingestDocuments c e texts)) \<longleftrightarrow> IngestResponse_shape b"
proof -
  note req = request_ok [OF assms(1) status_200_ok [OF assms(2)] assms(3),
      of IngestResponseSchema]
  have "IngestResponseSchema b = None \<longleftrightarrow> \<not> IngestResponse_shape b"
    by (simp add: eq_None_accepts accepts_IngestResponseSchema)
  then show ?thesis
    by (cases "IngestResponseSchema b") (simp_all add: ingestDocuments_def req)
qed

theorem ingestDocuments_validates_body_witness:
  "is_success (fst (ingestDocuments apiClient (answering 200 ''OK'' sample_ingest) [''quarterly report'']))"
  using ingestDocuments_validates_body
    [of "answering 200 ''OK'' sample_ingest" apiClient
      "\<lparr>resp_status = 200, statusText = ''OK'', resp_body = Json sample_ingest\<rparr>"
      sample_ingest "[''quarterly report'']"]
  by (simp add: answering_def IngestResponse_shape_def sample_ingest_def)

text \<open>
  C6, as the specification words it, fails: a body with \<open>document_ids\<close> and \<open>count\<close> and
  nothing more has the shape \<open>{ document_ids, count }\<close>, and \<open>ingestDocuments\<close> returns a
  failure for it.
\<close>

theorem bare_ingest_rejected:
  "ingest_shape bare_ingest
   \<and> ingestDocuments apiClient (answering 200 ''OK'' bare_ingest) [''quarterly report''] =
       (Failure \<lparr>detail = JStr ''Invalid response format: []'', status = 0\<rparr>,
        [Fetch ''http://localhost:9999/api/ingest'' 0])"
proof -
  have "IngestResponseSchema bare_ingest = None"
    by (simp add: IngestResponseSchema_def z_object_def z_field_def bare_ingest_def z_boolean_def)
  moreover have "ingest_shape bare_ingest"
    by (simp add: ingest_shape_def bare_ingest_def)
  moreover have "request apiClient (answering 200 ''OK'' bare_ingest) ''/ingest'' IngestResponseSchema =
      (case IngestResponseSchema bare_ingest of
         Some d \<Rightarrow> (Success d, [Fetch (baseURL apiClient @ ''/ingest'') 0])
       | None \<Rightarrow>
           (Failure \<lparr>detail = JStr (''Invalid response format: '' @
              zod_message (answering 200 ''OK'' bare_ingest) bare_ingest), status = 0\<rparr>,
            [Fetch (baseURL apiClient @ ''/ingest'') 0]))"
    by (rule request_ok
        [where r = "\<lparr>resp_status = 200, statusText = ''OK'', resp_body = Json bare_ingest\<rparr>"])
      (simp_all add: answering_def ok_def)
  ultimately show ?thesis
    by (simp add: ingestDocuments_def answering_def apiClient_def)
qed

section \<open>Retries\<close>

lemma request_loop_Return:
  assumes "attempt \<le> maxRetries c" and "attempt_step c e url schema attempt = Return r"
  shows "request_loop c e url schema attempt lastError = (r, [Fetch url attempt])"
  using assms by (simp add: request_loop.simps [of c e url schema attempt])

lemma request_loop_Retry:
  assumes "attempt \<le> maxRetries c" and "attempt_step c e url schema attempt = Retry err ms"
  shows "request_loop c e url schema attempt lastError =
     (fst (request_loop c e url schema (attempt + 1) (Some err)),
      Fetch url attempt # Sleep ms # snd (request_loop c e url schema (attempt + 1) (Some err)))"
  using assms by (simp add: request_loop.simps [of c e url schema attempt] split: prod.splits)

lemma request_loop_exhausted:
  assumes "\<not> attempt \<le> maxRetries c"
  shows "snd (request_loop c e url schema attempt lastError) = []"
  using assms by (simp add: request_loop.simps [of c e url schema attempt])

lemma attempts_request_loop:
  "attempts (snd (request_loop c e url schema attempt lastError)) \<le> Suc (maxRetries c) - attempt"
proof (induction c e url schema attempt lastError rule: request_loop.induct)
  case (1 c e url schema attempt lastError)
  show ?case
  proof (cases "attempt \<le> maxRetries c")
    case False
    then show ?thesis
      by (simp add: request_loop_exhausted attempts_def)
  next
    case True
    show ?thesis
    proof (cases "attempt_step c e url schema attempt")
      case (Return r)
      with True show ?thesis
        by (simp add: request_loop_Return attempts_def)
    next
      case (Retry err ms)
      have "attempts (snd (request_loop c e url schema (attempt + 1) (Some err)))
          \<le> Suc (maxRetries c) - (attempt + 1)"
        using "1.IH" [OF True Retry] .
      with True show ?thesis
        by (simp add: request_loop_Retry [OF True Retry] attempts_def)
    qed
  qed
qed

lemma attempts_request: "attempts (snd (request c e endpoint schema)) \<le> maxRetries c + 1"
  using attempts_request_loop [of c e "baseURL c @ endpoint" schema 0 None]
  by (simp add: request_def)

lemma truthy_or_else: "truthy b \<Longrightarrow> truthy (or_else a b)"
  by (simp add: or_else_def split: option.splits)

lemma error_detail_truthy: "error_detail j = Inr d \<Longrightarrow> truthy d"
  by (auto simp: error_detail_def truthy_or_else split: sum.splits)

lemma catch_block_truthy: "step_detail_truthy (catch_block c attempt t)"
  by (cases t) (simp_all add: catch_block_def Let_def)

lemma try_block_truthy:
  assumes "try_block c e url schema attempt = Inr s"
  shows "step_detail_truthy s"
proof (cases "fetch e url attempt")
  case (Rejected t)
  with assms show ?thesis
    by (simp add: try_block_def)
next
  case (Resolved r)
  show ?thesis
  proof (cases "ok r")
    case True
    with assms Resolved show ?thesis
      by (auto simp: try_block_def split: body.splits option.splits)
  next
    case False
    define errorData where "errorData =
      (case resp_body r of
         Json errorData \<Rightarrow> errorData
       | JsonFails m \<Rightarrow>
           JObj [(''detail'',
             JStr (''HTTP '' @ string_of_nat (resp_status r) @ '': '' @ statusText r))])"
    show ?thesis
    proof (cases "error_detail errorData")
      case (Inl t)
      with assms Resolved False show ?thesis
        by (simp add: try_block_def errorData_def)
    next
      case (Inr d)
      then have "truthy d"
        by (rule error_detail_truthy)
      with assms Resolved False Inr show ?thesis
        by (auto simp: try_block_def errorData_def Let_def split: if_splits)
    qed
  qed
qed

lemma attempt_step_truthy: "step_detail_truthy (attempt_step c e url schema attempt)"
  by (cases "try_block c e url schema attempt")
    (simp_all add: attempt_step_def catch_block_truthy try_block_truthy)

text \<open>A client error whose body is an object is returned at once with its status.\<close>

lemma client_error_returned_at_once:
  assumes "fetch e url attempt = Resolved r"
    and "400 \<le> resp_status r" and "resp_status r < 500"
    and "resp_body r = Json (JObj kvs)" and "attempt \<le> maxRetries c"
  shows "request_loop c e url schema attempt lastError =
     (Failure \<lparr>detail = or_else (map_of kvs ''detail'')
                  (or_else (map_of kvs ''message'') (JStr ''Unknown error'')),
               status = resp_status r\<rparr>,
      [Fetch url attempt])"
proof -
  have "attempt_step c e url schema attempt =
      Return (Failure \<lparr>detail = or_else (map_of kvs ''detail'')
                  (or_else (map_of kvs ''message'') (JStr ''Unknown error'')),
               status = resp_status r\<rparr>)"
    using assms(1-4)
    by (simp add: attempt_step_def try_block_def ok_def error_detail_def)
  with assms(5) show ?thesis
    by (simp add: request_loop.simps [of c e url schema attempt])
qed

text \<open>A server error, a rejected fetch and a timeout are retried after
  \<open>retryDelay * 2 ^ attempt\<close> ms while retries are left.\<close>

lemma server_error_is_retried:
  assumes "fetch e url attempt = Resolved r" and "500 \<le> resp_status r"
    and "resp_body r = Json (JObj kvs)" and "attempt < maxRetries c"
  shows "attempt_step c e url schema attempt =
     Retry \<lparr>detail = or_else (map_of kvs ''detail'')
                  (or_else (map_of kvs ''message'') (JStr ''Unknown error'')),
             status = resp_status r\<rparr>
       (retryDelay c * 2 ^ attempt)"
  using assms by (simp add: attempt_step_def try_block_def ok_def error_detail_def)

lemma rejected_fetch_is_retried:
  assumes "fetch e url attempt = Rejected (Error name m)" and "attempt < maxRetries c"
  shows "attempt_step c e url schema attempt =
     Retry \<lparr>detail = JStr (if name = ''AbortError'' then ''Request timeout''
                           else if m \<noteq> [] then m else ''Network error''),
             status = 0\<rparr>
       (retryDelay c * 2 ^ attempt)"
  using assms by (simp add: attempt_step_def try_block_def catch_block_def)

text \<open>
  C9 at a client error whose body is the JSON text \<open>null\<close>. Reading \<open>errorData.detail\<close>
  throws, the \<open>catch\<close> takes the \<open>TypeError\<close> for a network error, and the 404 is fetched
  four times, with sleeps of 1000, 2000 and 4000 ms, before a failure of status 0 is
  returned.
\<close>

theorem client_error_with_null_body_is_retried:
  "request apiClient (answering 404 ''Not Found'' JNull) ''/cluster'' ClusterDataSchema =
     (Failure \<lparr>detail = JStr ''Cannot read properties of null: detail'', status = 0\<rparr>,
      [Fetch ''http://localhost:9999/api/cluster'' 0, Sleep 1000,
       Fetch ''http://localhost:9999/api/cluster'' 1, Sleep 2000,
       Fetch ''http://localhost:9999/api/cluster'' 2, Sleep 4000,
       Fetch ''http://localhost:9999/api/cluster'' 3])"
proof -
  let ?e = "answering 404 ''Not Found'' JNull"
  let ?u = "''http://localhost:9999/api/cluster''"
  let ?err = "\<lparr>detail = JStr ''Cannot read properties of null: detail'', status = 0\<rparr>"
  have step: "attempt_step apiClient ?e ?u ClusterDataSchema n =
      (if n < 3 then Retry ?err (1000 * 2 ^ n) else Return (Failure ?err))" for n
    by (simp add: attempt_step_def try_block_def catch_block_def answering_def ok_def
        error_detail_def apiClient_def)
  have max: "maxRetries apiClient = 3"
    by (simp add: apiClient_def)
  have l3: "request_loop apiClient ?e ?u ClusterDataSchema 3 le = (Failure ?err, [Fetch ?u 3])"
    for le
    by (rule request_loop_Return) (simp_all add: step max)
  have l2: "request_loop apiClient ?e ?u ClusterDataSchema 2 le =
      (Failure ?err, [Fetch ?u 2, Sleep 4000, Fetch ?u 3])" for le
    using l3 [of "Some ?err"]
    by (simp add: request_loop_Retry [where attempt = 2 and err = ?err and ms = 4000] step max
        del: One_nat_def)
  have l1: "request_loop apiClient ?e ?u ClusterDataSchema 1 le =
      (Failure ?err, [Fetch ?u 1, Sleep 2000, Fetch ?u 2, Sleep 4000, Fetch ?u 3])" for le
    using l2 [of "Some ?err"]
    by (simp add: request_loop_Retry [where attempt = 1 and err = ?err and ms = 2000] step max
        del: One_nat_def)
  have l0: "request_loop apiClient ?e ?u ClusterDataSchema 0 le =
      (Failure ?err, [Fetch ?u 0, Sleep 1000, Fetch ?u 1, Sleep 2000, Fetch ?u 2, Sleep 4000,
        Fetch ?u 3])" for le
    using l1 [of "Some ?err"]
    by (simp add: request_loop_Retry [where attempt = 0 and err = ?err and ms = 1000] step max
        del: One_nat_def)
  show ?thesis
    using l0 [of None] by (simp add: request_def apiClient_def)
qed

section \<open>Fetching the snapshot in \<open>useClusterData\<close>\<close>

text \<open>
  C7. When the fetch fails (\<open>getClusters\<close> returns a failure, or something is thrown),
  \<open>data\<close> is what it was, before the \<open>await\<close> and after it: the state afterwards is the old
  one with \<open>error\<close> set and \<open>loading\<close> false. Whenever \<open>fetchData\<close> changes \<open>data\<close>, the
  fetch was a success.
\<close>

theorem failed_fetch_keeps_data:
  "(\<not> is_fetch_success outcome \<longrightarrow>
      data (fetchData_begin s) = data s
      \<and> fetchData outcome s = s\<lparr>error := error (fetchData outcome s), loading := False\<rparr>
      \<and> error (fetchData outcome s) \<noteq> None)
   \<and> (data (fetchData outcome s) \<noteq> data s \<longrightarrow> is_fetch_success outcome)"
proof (cases outcome)
  case (Returned r)
  then show ?thesis
    by (cases r) (simp_all add: fetchData_def fetchData_begin_def fetchData_end_def)
next
  case (Threw t)
  then show ?thesis
    by (simp add: fetchData_def fetchData_begin_def fetchData_end_def)
qed

theorem failed_fetch_keeps_data_witness:
  "fetchData (Returned (Failure \<lparr>detail = JStr ''Request timeout'', status = 0\<rparr>))
     \<lparr>data = Some sample_snapshot, loading = False, error = None\<rparr> =
   \<lparr>data = Some sample_snapshot, loading = False,
    error = Some \<lparr>detail = JStr ''Request timeout'', status = 0\<rparr>\<rparr>
   \<and> data (fetchData (Returned (Success sample_snapshot)) (useClusterData True)) =
       Some sample_snapshot
   \<and> is_fetch_success (Returned (Success sample_snapshot))"
  using failed_fetch_keeps_data
    [of "Returned (Failure \<lparr>detail = JStr ''Request timeout'', status = 0\<rparr>)"
        "\<lparr>data = Some sample_snapshot, loading = False, error = None\<rparr>"]
    failed_fetch_keeps_data [of "Returned (Success sample_snapshot)" "useClusterData True"]
  by (simp add: fetchData_def fetchData_begin_def fetchData_end_def useClusterData_def)

section \<open>The documents \<open>GridView\<close> shows\<close>

lemma rendered_GridView:
  "rendered (content (GridView documents sel)) = filteredDocuments documents sel"
  by (simp add: GridView_def Let_def)

text \<open>
  C10, as the code has it. \<open>GridView\<close> renders exactly the documents whose \<open>cluster_id\<close>
  equals \<open>selectedFolderId\<close> when that is a non-empty string, and all documents when it is
  \<open>null\<close> or the empty string; the count it displays is the length of that list, and the
  placeholder is shown exactly when the list is empty.
\<close>

theorem GridView_shows_selected:
  "rendered (content (GridView documents sel)) =
     (if sel = None \<or> sel = Some [] then documents else selected_documents documents sel)
   \<and> shown_count (GridView documents sel) = length (rendered (content (GridView documents sel)))
   \<and> (placeholder_shown (content (GridView documents sel)) \<longleftrightarrow>
        rendered (content (GridView documents sel)) = [])"
proof -
  have "filteredDocuments documents sel =
      (if sel = None \<or> sel = Some [] then documents else selected_documents documents sel)"
    by (cases sel) (auto simp: filteredDocuments_def truthy_string_def selected_documents_def)
  moreover have "shown_count (GridView documents sel) = length (filteredDocuments documents sel)"
    by (simp add: GridView_def Let_def)
  moreover have "placeholder_shown (content (GridView documents sel)) \<longleftrightarrow>
      filteredDocuments documents sel = []"
    by (simp add: GridView_def Let_def)
  ultimately show ?thesis
    by (simp add: rendered_GridView)
qed

theorem GridView_shows_selected_witness:
  "rendered (content (GridView
      [typed_document ''d1'' (Some ''c1''), typed_document ''d2'' None] (Some ''c1''))) =
     [typed_document ''d1'' (Some ''c1'')]
   \<and> shown_count (GridView
      [typed_document ''d1'' (Some ''c1''), typed_document ''d2'' None] (Some ''c1'')) = 1
   \<and> rendered (content (GridView
      [typed_document ''d1'' (Some ''c1''), typed_document ''d2'' None] None)) =
     [typed_document ''d1'' (Some ''c1''), typed_document ''d2'' None]
   \<and> placeholder_shown (content (GridView [typed_document ''d2'' None] (Some ''c1'')))"
  using GridView_shows_selected
    [of "[typed_document ''d1'' (Some ''c1''), typed_document ''d2'' None]" "Some ''c1''"]
    GridView_shows_selected
    [of "[typed_document ''d1'' (Some ''c1''), typed_document ''d2'' None]" None]
    GridView_shows_selected [of "[typed_document ''d2'' None]" "Some ''c1''"]
  by (simp add: selected_documents_def typed_document_def)

text \<open>
  C10, as the specification words it, fails where \<open>selectedFolderId\<close> is the empty string:
  it is not \<open>null\<close>, no document here has the empty \<open>cluster_id\<close>, and the grid shows the
  document all the same.
\<close>

theorem empty_selection_shows_all:
  "rendered (content (GridView [typed_document ''d1'' (Some ''c1'')] (Some ''''))) =
     [typed_document ''d1'' (Some ''c1'')]
   \<and> selected_documents [typed_document ''d1'' (Some ''c1'')] (Some '''') = []"
  by (simp add: GridView_def filteredDocuments_def truthy_string_def selected_documents_def
      typed_document_def)

section \<open>Dropping a document on its own folder\<close>

text \<open>
  C5. When the payload of the drop is an object whose \<open>sourceFolderId\<close> is the id of the
  folder it is dropped on, \<open>FolderItem.handleDrop\<close> does not call \<open>onDrop\<close>, and the view is
  left as it was: no request, the same cluster data. \<open>onDrop\<close> is called, and a re-embed
  request issued, only when the \<open>sourceFolderId\<close> differs from the folder's id.
\<close>

theorem drop_on_own_folder_is_noop:
  "(field ''sourceFolderId'' parsed = Some (JStr folder_id) \<longrightarrow>
      snd (handleDrop (Some parsed) folder_id) = None
      \<and> ui_step v (Drop (Some parsed) folder_id fresh) = v)
   \<and> (snd (handleDrop (Some parsed) folder_id) \<noteq> None \<longrightarrow>
        field ''sourceFolderId'' parsed \<noteq> Some (JStr folder_id))
   \<and> (issued (ui_step v (Drop (Some parsed) folder_id fresh)) \<noteq> issued v \<longrightarrow>
        field ''sourceFolderId'' parsed \<noteq> Some (JStr folder_id))"
proof -
  have "snd (handleDrop (Some parsed) folder_id) = None"
    if "field ''sourceFolderId'' parsed = Some (JStr folder_id)"
    using that by (cases parsed) (simp_all add: handleDrop_def)
  then show ?thesis
    by auto
qed

theorem drop_on_own_folder_is_noop_witness:
  "ui_step (FileSystemView (Some sample_snapshot))
     (Drop (Some (handleDragStart (typed_document ''d1'' (Some ''c1'')))) ''c1'' ''toast-1'') =
   FileSystemView (Some sample_snapshot)
   \<and> snd (handleDrop (Some (handleDragStart (typed_document ''d2'' None))) ''c1'') =
       Some (Some (JStr ''d2''))
   \<and> field ''sourceFolderId'' (handleDragStart (typed_document ''d2'' None)) \<noteq>
       Some (JStr ''c1'')"
  using drop_on_own_folder_is_noop
    [of "handleDragStart (typed_document ''d1'' (Some ''c1''))" "''c1''"
        "FileSystemView (Some sample_snapshot)" "''toast-1''"]
    drop_on_own_folder_is_noop
    [of "handleDragStart (typed_document ''d2'' None)" "''c1''"
        "FileSystemView (Some sample_snapshot)" "''toast-1''"]
  by (simp add: handleDragStart_def typed_document_def handleDrop_def)

section \<open>A re-embed that fails\<close>

lemma request_loop_failure_truthy:
  assumes "fst (request_loop c e url schema attempt lastError) = Failure err"
    and "case lastError of None \<Rightarrow> True | Some le \<Rightarrow> truthy (detail le)"
  shows "truthy (detail err)"
  using assms
proof (induction c e url schema attempt lastError rule: request_loop.induct)
  case (1 c e url schema attempt lastError)
  show ?case
  proof (cases "attempt \<le> maxRetries c")
    case False
    with "1.prems" show ?thesis
      by (auto simp: request_loop.simps [of c e url schema attempt] split: option.splits)
  next
    case True
    show ?thesis
    proof (cases "attempt_step c e url schema attempt")
      case (Return r)
      with True "1.prems"(1) attempt_step_truthy [of c e url schema attempt] show ?thesis
        by (simp add: request_loop_Return)
    next
      case (Retry le ms)
      with attempt_step_truthy [of c e url schema attempt] have "truthy (detail le)"
        by simp
      moreover have "fst (request_loop c e url schema (attempt + 1) (Some le)) = Failure err"
        using "1.prems"(1) by (simp add: request_loop_Retry [OF True Retry])
      ultimately show ?thesis
        using "1.IH" [OF True Retry] by simp
    qed
  qed
qed

lemma reEmbedDocument_failure_truthy:
  "fst (reEmbedDocument c e documentId targetFolderId) = Failure err \<Longrightarrow> truthy (detail err)"
  unfolding reEmbedDocument_def request_def
  by (erule request_loop_failure_truthy) simp

lemma settle_last:
  "ui_step (handleFolderDrop False fresh0 targetFolderId documentId v)
     (Settle (length (pending v)) outcome fresh now) =
   resume \<lparr>captured_isReEmbedding = False, retry_targetFolderId = targetFolderId,
            retry_documentId = documentId\<rparr>
     outcome fresh now
     (v\<lparr>isReEmbedding := True, issued := issued v @ [(documentId, targetFolderId)]\<rparr>)"
  by (simp add: handleFolderDrop_def)

text \<open>
  C8. A folder drop passes the guard and its re-embed fails: \<open>reEmbedDocument\<close> returns a
  failure, or an \<open>Error\<close> is thrown. Then the view has one more toast, an error toast whose
  message is the failure's detail (or the thrown message), with \<open>canRetry\<close> true, duration 0
  and an \<open>onRetry\<close> for the same folder and document; the toast sets no timer to dismiss
  itself; and a click on its Retry button calls \<open>handleFolderDrop\<close> with that folder and
  document again.
\<close>

theorem failed_re_embed_offers_retry:
  assumes "(fst (reEmbedDocument c e documentId targetFolderId) = Failure err
             \<and> outcome = Returned (Failure err) \<and> msg = detail err)
           \<or> (outcome = Threw t \<and> thrown_message t = Some m \<and> msg = JStr m)"
  shows "ui_step (handleFolderDrop False fresh0 targetFolderId documentId v)
           (Settle (length (pending v)) outcome fresh now) =
         v\<lparr>issued := issued v @ [(documentId, targetFolderId)],
           toasts := toasts v @ [retry_toast fresh msg targetFolderId documentId],
           isReEmbedding := False\<rparr>
       \<and> auto_dismiss (retry_toast fresh msg targetFolderId documentId) = None
       \<and> (List.find (\<lambda>toast. toast_id toast = fresh) (toasts w) =
            Some (retry_toast fresh msg targetFolderId documentId) \<longrightarrow>
          ui_step w (ClickRetry fresh fresh2) =
            (let w' = handleFolderDrop False fresh2 targetFolderId documentId w
             in w'\<lparr>toasts := dismissToast fresh (toasts w')\<rparr>))"
proof -
  have res: "resume \<lparr>captured_isReEmbedding = False, retry_targetFolderId = targetFolderId,
            retry_documentId = documentId\<rparr>
          outcome fresh now
          (v\<lparr>isReEmbedding := True, issued := issued v @ [(documentId, targetFolderId)]\<rparr>) =
        v\<lparr>issued := issued v @ [(documentId, targetFolderId)],
          toasts := toasts v @ [retry_toast fresh msg targetFolderId documentId],
          isReEmbedding := False\<rparr>"
    using assms
  proof (elim disjE conjE)
    assume "fst (reEmbedDocument c e documentId targetFolderId) = Failure err"
      and "outcome = Returned (Failure err)" and "msg = detail err"
    moreover from this have "truthy (detail err)"
      by (simp add: reEmbedDocument_failure_truthy)
    ultimately show ?thesis
      by (simp add: resume_def retry_error_def showError_def showToast_def or_else_def)
  next
    assume "outcome = Threw t" and "thrown_message t = Some m" and "msg = JStr m"
    then show ?thesis
      by (cases t)
        (simp_all add: resume_def retry_error_def showError_def showToast_def thrown_message_def)
  qed
  have "ui_step (handleFolderDrop False fresh0 targetFolderId documentId v)
           (Settle (length (pending v)) outcome fresh now) =
         v\<lparr>issued := issued v @ [(documentId, targetFolderId)],
           toasts := toasts v @ [retry_toast fresh msg targetFolderId documentId],
           isReEmbedding := False\<rparr>"
    by (simp only: settle_last res)
  moreover have "auto_dismiss (retry_toast fresh msg targetFolderId documentId) = None"
    by (simp add: auto_dismiss_def)
  moreover have "ui_step w (ClickRetry fresh fresh2) =
            (let w' = handleFolderDrop False fresh2 targetFolderId documentId w
             in w'\<lparr>toasts := dismissToast fresh (toasts w')\<rparr>)"
    if "List.find (\<lambda>toast. toast_id toast = fresh) (toasts w) =
            Some (retry_toast fresh msg targetFolderId documentId)"
    using that by (simp add: retry_button_def)
  ultimately show ?thesis
    by blast
qed

lemma reEmbedDocument_bare_success:
  "fst (reEmbedDocument apiClient (answering 200 ''OK'' (JObj [(''success'', JBool True)]))
      (Some (JStr ''d2'')) ''c1'') =
   Failure \<lparr>detail = JStr ''Invalid response format: []'', status = 0\<rparr>"
proof -
  let ?b = "JObj [(''success'', JBool True)]"
  have "ReEmbedResponseSchema ?b = None"
    by (simp add: ReEmbedResponseSchema_def z_object_def z_field_def z_boolean_def)
  moreover have "request apiClient (answering 200 ''OK'' ?b) ''/re-embed'' ReEmbedResponseSchema =
      (case ReEmbedResponseSchema ?b of
         Some d \<Rightarrow> (Success d, [Fetch (baseURL apiClient @ ''/re-embed'') 0])
       | None \<Rightarrow>
           (Failure \<lparr>detail = JStr (''Invalid response format: '' @
              zod_message (answering 200 ''OK'' ?b) ?b), status = 0\<rparr>,
            [Fetch (baseURL apiClient @ ''/re-embed'') 0]))"
    by (rule request_ok
        [where r = "\<lparr>resp_status = 200, statusText = ''OK'', resp_body = Json ?b\<rparr>"])
      (simp_all add: answering_def ok_def)
  ultimately show ?thesis
    by (simp add: reEmbedDocument_def answering_def)
qed

theorem failed_re_embed_offers_retry_witness:
  "ui_step (handleFolderDrop False ''toast-0'' ''c1'' (Some (JStr ''d2''))
              (FileSystemView (Some sample_snapshot)))
     (Settle 0 (Threw (Error ''TypeError'' ''Failed to fetch'')) ''toast-1''
        ''2026-01-03T00:00:00'') =
   (FileSystemView (Some sample_snapshot))
     \<lparr>issued := [(Some (JStr ''d2''), ''c1'')],
      toasts := [retry_toast ''toast-1'' (JStr ''Failed to fetch'') ''c1'' (Some (JStr ''d2''))],
      isReEmbedding := False\<rparr>
   \<and> ui_step (handleFolderDrop False ''toast-0'' ''c1'' (Some (JStr ''d2''))
              (FileSystemView (Some sample_snapshot)))
     (Settle 0 (Returned (Failure \<lparr>detail = JStr ''Invalid response format: []'', status = 0\<rparr>))
        ''toast-1'' ''2026-01-03T00:00:00'') =
   (FileSystemView (Some sample_snapshot))
     \<lparr>issued := [(Some (JStr ''d2''), ''c1'')],
      toasts := [retry_toast ''toast-1'' (JStr ''Invalid response format: []'') ''c1''
                  (Some (JStr ''d2''))],
      isReEmbedding := False\<rparr>
   \<and> issued (ui_step
        ((FileSystemView (Some sample_snapshot))
           \<lparr>issued := [(Some (JStr ''d2''), ''c1'')],
            toasts := [retry_toast ''toast-1'' (JStr ''Failed to fetch'') ''c1''
                        (Some (JStr ''d2''))],
            isReEmbedding := False\<rparr>)
        (ClickRetry ''toast-1'' ''toast-2'')) =
       [(Some (JStr ''d2''), ''c1''), (Some (JStr ''d2''), ''c1'')]"
  using failed_re_embed_offers_retry
    [of apiClient "answering 200 ''OK'' JNull" "Some (JStr ''d2'')" "''c1''"
        "\<lparr>detail = JNull, status = 0\<rparr>"
        "Threw (Error ''TypeError'' ''Failed to fetch'')" "JStr ''Failed to fetch''"
        "Error ''TypeError'' ''Failed to fetch''" "''Failed to fetch''" "''toast-0''"
        "FileSystemView (Some sample_snapshot)" "''toast-1''" "''2026-01-03T00:00:00''"
        "(FileSystemView (Some sample_snapshot))
           \<lparr>issued := [(Some (JStr ''d2''), ''c1'')],
            toasts := [retry_toast ''toast-1'' (JStr ''Failed to fetch'') ''c1''
                        (Some (JStr ''d2''))],
            isReEmbedding := False\<rparr>"
        "''toast-2''"]
    failed_re_embed_offers_retry
    [of apiClient "answering 200 ''OK'' (JObj [(''success'', JBool True)])"
        "Some (JStr ''d2'')" "''c1''"
        "\<lparr>detail = JStr ''Invalid response format: []'', status = 0\<rparr>"
        "Returned (Failure \<lparr>detail = JStr ''Invalid response format: []'', status = 0\<rparr>)"
        "JStr ''Invalid response format: []''"
        NonError "[]" "''toast-0''"
        "FileSystemView (Some sample_snapshot)" "''toast-1''" "''2026-01-03T00:00:00''"]
    reEmbedDocument_bare_success
  by (simp add: thrown_message_def FileSystemView_def handleFolderDrop_def)

section \<open>A second drop while a re-embed is under way\<close>

lemma one_in_flight_initial: "one_in_flight (FileSystemView initialData)"
  by (simp add: one_in_flight_def FileSystemView_def)

lemma resume_flag: "isReEmbedding (resume call outcome fresh now v) = False"
  by (simp add: resume_def split: settled.splits APIResult.splits option.splits prod.splits)

lemma resume_pending: "pending (resume call outcome fresh now v) = pending v"
  by (simp add: resume_def split: settled.splits APIResult.splits option.splits prod.splits)

lemma one_in_flight_step:
  assumes "one_in_flight v" and "no_retry_click ev"
  shows "one_in_flight (ui_step v ev)"
proof (cases ev)
  case (Drop payload folder_id fresh)
  with assms(1) show ?thesis
    by (auto simp: one_in_flight_def handleFolderDrop_def split: option.splits if_splits)
next
  case (Settle i outcome fresh now)
  show ?thesis
  proof (cases "i < length (pending v)")
    case True
    with assms(1) have "length (pending v) = 1" and "i = 0"
      by (auto simp: one_in_flight_def split: if_splits)
    with Settle show ?thesis
      by (simp add: one_in_flight_def resume_flag resume_pending)
  next
    case False
    with Settle assms(1) show ?thesis
      by simp
  qed
next
  case (ClickRetry ident fresh)
  with assms(2) show ?thesis
    by simp
next
  case (Dismiss ident)
  with assms(1) show ?thesis
    by (simp add: one_in_flight_def)
qed

lemma one_in_flight_run:
  "one_in_flight v \<Longrightarrow> list_all no_retry_click evs \<Longrightarrow> one_in_flight (run v evs)"
  unfolding run_def
  by (induction evs arbitrary: v) (simp_all add: one_in_flight_step)

lemma handleDragStart_drop:
  "cluster_id doc \<noteq> Some folder_id \<Longrightarrow>
   snd (handleDrop (Some (handleDragStart doc)) folder_id) = Some (Some (JStr (doc_id doc)))"
  by (auto simp: handleDrop_def handleDragStart_def split: option.splits)

text \<open>
  C4, as the code has it. A folder drop that arrives while \<open>isReEmbedding\<close> is set is
  turned away: the view gains the error toast \<open>Please wait for the current operation to
  complete\<close> and nothing else changes, so no request is issued for the drop and none is kept
  for later. Hence, however folder drops, completions and dismissals follow one another,
  at most one re-embed request is under way.
\<close>

theorem drop_while_re_embedding_is_turned_away:
  "(isReEmbedding v \<and> snd (handleDrop payload folder_id) = Some documentId \<longrightarrow>
      ui_step v (Drop payload folder_id fresh) = v\<lparr>toasts := toasts v @ [wait_toast fresh]\<rparr>)
   \<and> (list_all no_retry_click evs \<longrightarrow>
        length (pending (run (FileSystemView initialData) evs)) \<le> 1)"
proof -
  have "ui_step v (Drop payload folder_id fresh) = v\<lparr>toasts := toasts v @ [wait_toast fresh]\<rparr>"
    if "isReEmbedding v" and "snd (handleDrop payload folder_id) = Some documentId"
    using that by (simp add: handleFolderDrop_def showError_def showToast_def)
  moreover have "length (pending (run (FileSystemView initialData) evs)) \<le> 1"
    if "list_all no_retry_click evs"
    using one_in_flight_run [OF one_in_flight_initial that, of initialData]
    by (simp add: one_in_flight_def split: if_splits)
  ultimately show ?thesis
    by blast
qed

lemma run_two_drops:
  "run (FileSystemView (Some sample_snapshot)) two_drops =
     \<lparr>selectedFolderId = None,
      clusterData = Some (JObj
        [(''folders'', JArr (items ''folders'' sample_snapshot)),
         (''documents'', JArr (items ''documents'' sample_snapshot)),
         (''timestamp'', JStr ''2026-01-03T00:00:00'')]),
      isReEmbedding = False,
      updateCounter = 1,
      toasts =
        [wait_toast ''toast-2'',
         \<lparr>toast_id = ''toast-3'', toast_type = SuccessToast,
          message = JStr ''Document moved successfully!'', canRetry = None, onRetry = None,
          duration = Some 4000\<rparr>],
      issued = [(Some (JStr ''d2''), ''c1'')],
      pending = []\<rparr>"
  by (simp add: run_def two_drops_def FileSystemView_def handleDrop_def handleDragStart_def
      typed_document_def handleFolderDrop_def showError_def showToast_def showSuccess_def
      resume_def updated_clusters_def sample_re_embed_def sample_snapshot_def items_def)

theorem drop_while_re_embedding_is_turned_away_witness:
  "length (pending (run (FileSystemView (Some sample_snapshot)) two_drops)) \<le> 1
   \<and> ui_step
        ((FileSystemView (Some sample_snapshot))\<lparr>isReEmbedding := True\<rparr>)
        (Drop (Some (handleDragStart (typed_document ''d3'' None))) ''c1'' ''toast-2'') =
      (FileSystemView (Some sample_snapshot))
        \<lparr>isReEmbedding := True, toasts := [wait_toast ''toast-2'']\<rparr>"
  using drop_while_re_embedding_is_turned_away
    [of "(FileSystemView (Some sample_snapshot))\<lparr>isReEmbedding := True\<rparr>"
        "Some (handleDragStart (typed_document ''d3'' None))" "''c1''" "Some (JStr ''d3'')"
        "''toast-2''" two_drops "Some sample_snapshot"]
  by (simp add: handleDragStart_drop typed_document_def two_drops_def FileSystemView_def)

text \<open>
  C4, as the specification words it, fails: the second drop neither waits nor queues.
  After the first request has completed, the only request the view has issued is the first
  one, for \<open>d2\<close>; none was issued for \<open>d3\<close>, and none is waiting.
\<close>

theorem second_drop_is_never_issued:
  "issued (run (FileSystemView (Some sample_snapshot)) two_drops) = [(Some (JStr ''d2''), ''c1'')]
   \<and> pending (run (FileSystemView (Some sample_snapshot)) two_drops) = []
   \<and> isReEmbedding (run (FileSystemView (Some sample_snapshot)) two_drops) = False"
  by (simp add: run_two_drops)

text \<open>
  The closure behind a Retry button calls the handler of the render that made it, whose
  \<open>isReEmbedding\<close> was false; a click on it while another drop's request is under way
  passes the guard, and two requests are under way.
\<close>

lemma retry_click_passes_guard:
  "pending (run (FileSystemView (Some sample_snapshot)) retry_during_drop) =
     [\<lparr>captured_isReEmbedding = False, retry_targetFolderId = ''c1'',
       retry_documentId = Some (JStr ''d3'')\<rparr>,
      \<lparr>captured_isReEmbedding = False, retry_targetFolderId = ''c1'',
       retry_documentId = Some (JStr ''d2'')\<rparr>]"
  by (simp add: run_def retry_during_drop_def FileSystemView_def handleDrop_def
      handleDragStart_def typed_document_def handleFolderDrop_def showError_def showToast_def
      resume_def retry_error_def or_else_def retry_button_def dismissToast_def)

end
